theory Spec2Isabelle
  imports Main
begin

section \<open>String operations of the host language\<close>

text \<open>
  Strings are lists of characters.  \<open>startsWith\<close>, \<open>slice\<close> with one non-negative
  argument (\<open>drop\<close>), \<open>split\<close> on a one-character separator and \<open>replace\<close> of the
  first occurrence of a pattern are written out as the source uses them.
\<close>

definition startsWith :: "string \<Rightarrow> string \<Rightarrow> bool" where
  "startsWith s p = (take (length p) s = p)"

text \<open>\<open>s.split(c)\<close>: always at least one piece; the empty string gives one empty piece.\<close>

fun split_on :: "char \<Rightarrow> string \<Rightarrow> string list" where
  "split_on c [] = [[]]"
| "split_on c (x # xs) =
     (if x = c then [] # split_on c xs
      else (case split_on c xs of
              [] \<Rightarrow> [[x]]
            | w # ws \<Rightarrow> (x # w) # ws))"

text \<open>\<open>s.replace(pat, rep)\<close> with a string pattern: only the first occurrence is replaced.\<close>

fun replace_first :: "string \<Rightarrow> string \<Rightarrow> string \<Rightarrow> string" where
  "replace_first pat rep [] = (if pat = [] then rep else [])"
| "replace_first pat rep (c # cs) =
     (if startsWith (c # cs) pat then rep @ drop (length pat) (c # cs)
      else c # replace_first pat rep cs)"

text \<open>\<open>xs[i]\<close> on an array: \<open>None\<close> stands for \<open>undefined\<close> (index out of range).\<close>

fun nth_opt :: "'a list \<Rightarrow> nat \<Rightarrow> 'a option" where
  "nth_opt [] i = None"
| "nth_opt (x # xs) 0 = Some x"
| "nth_opt (x # xs) (Suc i) = nth_opt xs i"

section \<open>i18n/utils.ts: languages\<close>

type_synonym Language = string

definition DEFAULT_LANG :: Language where
  "DEFAULT_LANG = ''ja''"

definition LANGUAGES :: "Language list" where
  "LANGUAGES = [''en'', ''ja'', ''th'']"

subsection \<open>removeLanguagePrefix\<close>

text \<open>The \<open>for (const lang of LANGUAGES)\<close> loop: the first language that matches returns.\<close>

fun removeLanguagePrefix_loop :: "Language list \<Rightarrow> string \<Rightarrow> string" where
  "removeLanguagePrefix_loop [] pathWithoutLeadingSlash = ''/'' @ pathWithoutLeadingSlash"
| "removeLanguagePrefix_loop (lang # langs) pathWithoutLeadingSlash =
     (if startsWith pathWithoutLeadingSlash (lang @ ''/'') \<or> pathWithoutLeadingSlash = lang
      then ''/'' @ drop (length lang + 1) pathWithoutLeadingSlash
      else removeLanguagePrefix_loop langs pathWithoutLeadingSlash)"

definition removeLeadingSlash :: "string \<Rightarrow> string" where
  "removeLeadingSlash path = (if startsWith path ''/'' then drop 1 path else path)"

definition removeLanguagePrefix :: "string \<Rightarrow> string" where
  "removeLanguagePrefix path = removeLanguagePrefix_loop LANGUAGES (removeLeadingSlash path)"

text \<open>The test of the loop, for any of the supported languages.\<close>

definition hasLanguagePrefix :: "string \<Rightarrow> bool" where
  "hasLanguagePrefix s = list_ex (\<lambda>lang. startsWith s (lang @ ''/'') \<or> s = lang) LANGUAGES"

text \<open>
  A path normalised to exactly one leading slash: every leading slash taken off, one put
  back.
\<close>

definition oneLeadingSlash :: "string \<Rightarrow> string" where
  "oneLeadingSlash path = ''/'' @ dropWhile (\<lambda>c. c = CHR ''/'') path"

subsection \<open>getAlternateUrls\<close>

text \<open>An entry \<open>{ lang, href }\<close>.\<close>

record alternate =
  alt_lang :: Language
  alt_href :: string

definition getAlternateUrls :: "string \<Rightarrow> alternate list" where
  "getAlternateUrls currentPath =
     map (\<lambda>lang. \<lparr>alt_lang = lang, alt_href = ''/'' @ lang @ currentPath\<rparr>) LANGUAGES"

subsection \<open>getLangFromUrl\<close>

text \<open>
  The function is embedded from \<open>urlObj.pathname\<close> on: its argument here is the pathname
  of the URL object (the parsing of a string into a URL object is the platform's).
  \<open>const [, langSegment] = pathname.split('/')\<close> binds the element at index 1 of the
  pieces, \<open>undefined\<close> when there is none.
\<close>

definition getLangFromUrl :: "string \<Rightarrow> Language" where
  "getLangFromUrl urlPathname =
     (let pathname =
            (if startsWith urlPathname ''/vinc-placement-website/''
             then replace_first ''/vinc-placement-website'' '''' urlPathname
             else urlPathname)
      in case nth_opt (split_on CHR ''/'' pathname) 1 of
           None \<Rightarrow> DEFAULT_LANG
         | Some langSegment \<Rightarrow>
             (if langSegment \<noteq> [] \<and> langSegment \<in> set LANGUAGES
              then langSegment else DEFAULT_LANG))"

text \<open>
  Notions used to state the properties of \<open>getLangFromUrl\<close>: the pathname once the
  deployment base path is taken off, the first non-empty piece of a path, and a path that
  is \<open>/<lang>\<close> or starts with \<open>/<lang>/\<close>.
\<close>

definition stripBasePath :: "string \<Rightarrow> string" where
  "stripBasePath p =
     (if startsWith p ''/vinc-placement-website/''
      then drop (length ''/vinc-placement-website'') p else p)"

definition firstNonEmptySegment :: "string \<Rightarrow> string option" where
  "firstNonEmptySegment p = find (\<lambda>seg. seg \<noteq> []) (split_on CHR ''/'' p)"

definition pathHasLanguage :: "string \<Rightarrow> Language \<Rightarrow> bool" where
  "pathHasLanguage p l = (p = ''/'' @ l \<or> startsWith p (''/'' @ l @ ''/''))"

subsection \<open>detectBrowserLanguage\<close>

text \<open>
  The environment is a parameter: \<open>None\<close> when \<open>typeof window === 'undefined'\<close>, otherwise
  the two properties of \<open>navigator\<close> the function reads.  \<open>language\<close> is \<open>None\<close> when the
  property is \<open>undefined\<close>; \<open>languages\<close> is \<open>None\<close> when the array is missing.
\<close>

record navigator =
  language :: "string option"
  languages :: "string list option"

text \<open>\<open>a || b\<close> on strings that may be \<open>undefined\<close>: the empty string is falsy.\<close>

definition str_or :: "string option \<Rightarrow> string option \<Rightarrow> string option" where
  "str_or a b = (case a of None \<Rightarrow> b | Some s \<Rightarrow> if s = [] then b else Some s)"

text \<open>\<open>navigator.languages?.[0]\<close>\<close>

definition firstOfLanguages :: "navigator \<Rightarrow> string option" where
  "firstOfLanguages nav = (case languages nav of None \<Rightarrow> None | Some ls \<Rightarrow> nth_opt ls 0)"

text \<open>
  \<open>toLowerCase\<close> on the letters A to Z; every other character is left as it is.  (A
  character outside ASCII never lower-cases to a letter of a supported language code.)
\<close>

definition lowerChar :: "char \<Rightarrow> char" where
  "lowerChar c =
     (case map_of (zip ''ABCDEFGHIJKLMNOPQRSTUVWXYZ'' ''abcdefghijklmnopqrstuvwxyz'') c of
        None \<Rightarrow> c | Some d \<Rightarrow> d)"

definition toLowerCase :: "string \<Rightarrow> string" where
  "toLowerCase s = map lowerChar s"

definition detectBrowserLanguage :: "navigator option \<Rightarrow> Language" where
  "detectBrowserLanguage env =
     (case env of
        None \<Rightarrow> DEFAULT_LANG
      | Some nav \<Rightarrow>
          (let browserLang =
                 (case str_or (language nav) (str_or (firstOfLanguages nav) (Some ''en'')) of
                    None \<Rightarrow> [] | Some s \<Rightarrow> s);
               langCode =
                 toLowerCase (case split_on CHR ''-'' browserLang of [] \<Rightarrow> [] | x # _ \<Rightarrow> x)
           in if langCode \<in> set LANGUAGES then langCode else DEFAULT_LANG))"

text \<open>
  The first preference the environment advertises: \<open>navigator.language\<close>, or the head of
  \<open>navigator.languages\<close> when that is empty or missing; and the check of a subtag.
\<close>

definition firstPreference :: "navigator \<Rightarrow> string option" where
  "firstPreference nav = str_or (language nav) (str_or (firstOfLanguages nav) None)"

definition supportedOrDefault :: "string \<Rightarrow> Language" where
  "supportedOrDefault code = (if code \<in> set LANGUAGES then code else DEFAULT_LANG)"

section \<open>i18n/utils.ts: translation lookup\<close>

subsection \<open>Values\<close>

text \<open>
  The translation files are JSON documents; numbers are the integers.  An object is the
  list of its entries, read with \<open>map_of\<close>.
\<close>

datatype json =
    JNull
  | JBool bool
  | JNum int
  | JStr string
  | JArr "json list"
  | JObj "(string \<times> json) list"

text \<open>
  A value of the host language is \<open>undefined\<close>, a JSON value, or a value of the runtime: a
  function, or a built-in object such as \<open>Object.prototype\<close>, each known by its name.
\<close>

datatype jsval =
    JUndefined
  | JData json
  | JFunction string
  | JBuiltinObject string

datatype js_error = TypeError

fun truthy :: "jsval \<Rightarrow> bool" where
  "truthy JUndefined = False"
| "truthy (JData JNull) = False"
| "truthy (JData (JBool b)) = b"
| "truthy (JData (JNum n)) = (n \<noteq> 0)"
| "truthy (JData (JStr s)) = (s \<noteq> [])"
| "truthy (JData (JArr xs)) = True"
| "truthy (JData (JObj kvs)) = True"
| "truthy (JFunction f) = True"
| "truthy (JBuiltinObject b) = True"

fun typeof :: "jsval \<Rightarrow> string" where
  "typeof JUndefined = ''undefined''"
| "typeof (JData JNull) = ''object''"
| "typeof (JData (JBool b)) = ''boolean''"
| "typeof (JData (JNum n)) = ''number''"
| "typeof (JData (JStr s)) = ''string''"
| "typeof (JData (JArr xs)) = ''object''"
| "typeof (JData (JObj kvs)) = ''object''"
| "typeof (JFunction f) = ''function''"
| "typeof (JBuiltinObject b) = ''object''"

text \<open>\<open>a || b\<close>\<close>

definition js_or :: "jsval \<Rightarrow> jsval \<Rightarrow> jsval" where
  "js_or a b = (if truthy a then a else b)"

text \<open>The decimal name of an array index, as property keys have it.\<close>

function index_key :: "nat \<Rightarrow> string" where
  "index_key n =
     (if n < 10 then [''0123456789'' ! n]
      else index_key (n div 10) @ [''0123456789'' ! (n mod 10)])"
  by pat_completeness auto
termination
  by (relation "measure (\<lambda>n. n)") auto

declare index_key.simps [simp del]

subsection \<open>Property access\<close>

text \<open>
  \<open>v[k]\<close> for a string key first reads the entries the value itself holds: an object holds
  its entries; an array and a string hold their elements under the decimal indices, and
  \<open>length\<close>.
\<close>

fun own_property :: "json \<Rightarrow> string \<Rightarrow> json option" where
  "own_property (JObj kvs) k = map_of kvs k"
| "own_property (JArr xs) k =
     (if k = ''length'' then Some (JNum (int (length xs)))
      else map_of (zip (map index_key [0..<length xs]) xs) k)"
| "own_property (JStr s) k =
     (if k = ''length'' then Some (JNum (int (length s)))
      else map_of (zip (map index_key [0..<length s]) (map (\<lambda>c. JStr [c]) s)) k)"
| "own_property v k = None"

text \<open>
  When the value holds no entry \<open>k\<close> itself, the read goes on to what the runtime gives
  the value: the members inherited along its prototype chain (\<open>toString\<close>, \<open>constructor\<close>,
  \<open>__proto__\<close>, the methods of arrays, ...).  These are the runtime's, not the program's:
  the runtime is a parameter \<open>R\<close>, where \<open>R v k\<close> is the member \<open>k\<close> that \<open>v\<close> has beyond its
  own entries, \<open>JUndefined\<close> when there is none.  Reading a property of \<open>undefined\<close> or
  \<open>null\<close> raises \<open>TypeError\<close>.
\<close>

type_synonym runtime = "jsval \<Rightarrow> string \<Rightarrow> jsval"

fun js_get :: "runtime \<Rightarrow> jsval \<Rightarrow> string \<Rightarrow> js_error + jsval" where
  "js_get R JUndefined k = Inl TypeError"
| "js_get R (JData JNull) k = Inl TypeError"
| "js_get R (JData v) k =
     Inr (case own_property v k of Some w \<Rightarrow> JData w | None \<Rightarrow> R (JData v) k)"
| "js_get R v k = Inr (R v k)"

text \<open>
  The runtime of ECMAScript, for plain objects, arrays and their two prototypes: the
  members of \<open>Object.prototype\<close> and of \<open>Array.prototype\<close>.  The accessor \<open>__proto__\<close>
  gives the prototype of the value it is read on.  (The members of primitive values and of
  functions, which no function below reads, are left out.)
\<close>

definition object_prototype_names :: "string list" where
  "object_prototype_names =
     [''__defineGetter__'', ''__defineSetter__'', ''__lookupGetter__'', ''__lookupSetter__'',
      ''hasOwnProperty'', ''isPrototypeOf'', ''propertyIsEnumerable'', ''toLocaleString'',
      ''toString'', ''valueOf'']"

definition array_prototype_names :: "string list" where
  "array_prototype_names =
     [''at'', ''concat'', ''copyWithin'', ''entries'', ''every'', ''fill'', ''filter'',
      ''find'', ''findIndex'', ''findLast'', ''findLastIndex'', ''flat'', ''flatMap'',
      ''forEach'', ''includes'', ''indexOf'', ''join'', ''keys'', ''lastIndexOf'', ''map'',
      ''pop'', ''push'', ''reduce'', ''reduceRight'', ''reverse'', ''shift'', ''slice'',
      ''some'', ''sort'', ''splice'', ''toLocaleString'', ''toReversed'', ''toSorted'',
      ''toSpliced'', ''toString'', ''unshift'', ''values'', ''with'']"

definition object_prototype_member :: "jsval \<Rightarrow> string \<Rightarrow> jsval" where
  "object_prototype_member proto k =
     (if k = ''__proto__'' then proto
      else if k = ''constructor'' then JFunction ''Object''
      else if k \<in> set object_prototype_names then JFunction (''Object.prototype.'' @ k)
      else JUndefined)"

definition array_prototype_member :: "jsval \<Rightarrow> string \<Rightarrow> jsval" where
  "array_prototype_member proto k =
     (if k = ''constructor'' then JFunction ''Array''
      else if k \<in> set array_prototype_names then JFunction (''Array.prototype.'' @ k)
      else object_prototype_member proto k)"

fun ecmascript :: runtime where
  "ecmascript (JData (JObj kvs)) k =
     object_prototype_member (JBuiltinObject ''Object.prototype'') k"
| "ecmascript (JData (JArr xs)) k =
     array_prototype_member (JBuiltinObject ''Array.prototype'') k"
| "ecmascript (JBuiltinObject b) k =
     (if b = ''Object.prototype'' then object_prototype_member (JData JNull) k
      else if b = ''Array.prototype''
      then (if k = ''length'' then JData (JNum 0)
            else array_prototype_member (JBuiltinObject ''Object.prototype'') k)
      else JUndefined)"
| "ecmascript v k = JUndefined"

subsection \<open>The translation table\<close>

text \<open>
  The three locale files are not part of the sources at hand; they are a parameter.  Each
  is an object, as the type \<open>Translations\<close> declares.  \<open>translations_table\<close> is the object
  \<open>{ en, ja, th }\<close>.
\<close>

record locales =
  en :: "(string \<times> json) list"
  ja :: "(string \<times> json) list"
  th :: "(string \<times> json) list"

definition translations_table :: "locales \<Rightarrow> json" where
  "translations_table L = JObj [(''en'', JObj (en L)), (''ja'', JObj (ja L)), (''th'', JObj (th L))]"

subsection \<open>t\<close>

text \<open>
  The \<open>for (const k of keys)\<close> loop with its early return, then the final return.
\<close>

fun t_loop :: "runtime \<Rightarrow> jsval \<Rightarrow> string list \<Rightarrow> jsval \<Rightarrow> string \<Rightarrow> js_error + jsval" where
  "t_loop R result [] fallback key =
     Inr (if result \<noteq> JUndefined then result else js_or fallback (JData (JStr key)))"
| "t_loop R result (k # ks) fallback key =
     (if truthy result \<and> typeof result = ''object''
      then (case js_get R result k of
              Inl e \<Rightarrow> Inl e
            | Inr r \<Rightarrow> t_loop R r ks fallback key)
      else Inr (js_or fallback (JData (JStr key))))"

text \<open>\<open>translations[lang] || translations[DEFAULT_LANG]\<close>\<close>

definition langTranslations :: "runtime \<Rightarrow> locales \<Rightarrow> Language \<Rightarrow> js_error + jsval" where
  "langTranslations R L lang =
     (case js_get R (JData (translations_table L)) lang of
        Inl e \<Rightarrow> Inl e
      | Inr a \<Rightarrow>
          if truthy a then Inr a else js_get R (JData (translations_table L)) DEFAULT_LANG)"

text \<open>An argument \<open>fallback\<close> that is left out is \<open>JUndefined\<close>.\<close>

definition t :: "runtime \<Rightarrow> locales \<Rightarrow> Language \<Rightarrow> string \<Rightarrow> jsval \<Rightarrow> js_error + jsval" where
  "t R L lang key fallback =
     (case langTranslations R L lang of
        Inl e \<Rightarrow> Inl e
      | Inr tree \<Rightarrow> t_loop R tree (split_on CHR ''.'' key) fallback key)"

subsection \<open>Paths of a translation tree\<close>

text \<open>
  A translation tree maps string keys to a leaf (a string, a sequence) or to another
  tree.  \<open>tree_at v ks\<close> is the value stored at the path \<open>ks\<close>, \<open>None\<close> when the path is
  absent: only a mapping has entries.
\<close>

fun tree_at :: "json \<Rightarrow> string list \<Rightarrow> json option" where
  "tree_at v [] = Some v"
| "tree_at (JObj kvs) (k # ks) =
     (case map_of kvs k of None \<Rightarrow> None | Some w \<Rightarrow> tree_at w ks)"
| "tree_at v (k # ks) = None"

text \<open>
  A path can leave the tree through a member of the runtime.  At the segment \<open>k\<close> where
  the path leaves the stored mappings, the value reached may have a member \<open>k\<close> as an
  object of the runtime although the tree holds no such entry: a mapping has the members
  it inherits, a sequence has its elements under their indices, its \<open>length\<close>, and the
  members it inherits.  \<open>through_member m ks\<close>: the member \<open>m\<close> exists and the path \<open>ks\<close>
  after it ends there or goes on into it, an object.  \<open>leaves_at_member R v ks\<close>: the path
  \<open>ks\<close> leaves the tree \<open>v\<close> through such a member.
\<close>

definition through_member :: "jsval \<Rightarrow> string list \<Rightarrow> bool" where
  "through_member m ks =
     (m \<noteq> JUndefined \<and> (ks = [] \<or> (truthy m \<and> typeof m = ''object'')))"

primrec leaves_at_member :: "runtime \<Rightarrow> json \<Rightarrow> string list \<Rightarrow> bool" where
  "leaves_at_member R v [] = False"
| "leaves_at_member R v (k # ks) =
     (case v of
        JObj kvs \<Rightarrow>
          (case map_of kvs k of
             None \<Rightarrow> through_member (R (JData v) k) ks
           | Some w \<Rightarrow> leaves_at_member R w ks)
      | JArr xs \<Rightarrow>
          through_member
            (case own_property v k of Some w \<Rightarrow> JData w | None \<Rightarrow> R (JData v) k) ks
      | _ \<Rightarrow> False)"

text \<open>The tree of a supported language (for any other tag, the default language's).\<close>

definition tree_of :: "locales \<Rightarrow> Language \<Rightarrow> json" where
  "tree_of L lang =
     (if lang = ''en'' then JObj (en L)
      else if lang = ''ja'' then JObj (ja L)
      else if lang = ''th'' then JObj (th L)
      else JObj (ja L))"

section \<open>utils/constants.ts\<close>

text \<open>
  The static fields of \<open>SITE_CONFIG\<close> (the field \<open>currentYear\<close> is read from the clock and
  is used by none of the functions below), and \<open>SEO_KEYWORDS\<close>.
\<close>

record site_config =
  site_name :: string
  site_title :: string
  site_domain :: string
  site_url :: string
  site_description :: string
  site_locale :: string
  site_themeColor :: string
  site_foundedYear :: nat

definition SITE_CONFIG :: site_config where
  "SITE_CONFIG =
     \<lparr>site_name = ''VINC Placement'',
      site_title = ''VINC Placement Co., Ltd.'',
      site_domain = ''www.vincplacement.com'',
      site_url = ''https://www.vincplacement.com'',
      site_description = ''Leading workforce solutions in Asia since 1988'',
      site_locale = ''en_US'',
      site_themeColor = ''#3b82f6'',
      site_foundedYear = 1988\<rparr>"

definition SEO_KEYWORDS :: "string list" where
  "SEO_KEYWORDS =
     [''Thai workers for Japan'',
      ''Japan job placement Thailand'',
      ''Thai workers recruitment'',
      ''Work in Japan from Thailand'',
      ''Japanese factory jobs for Thai'',
      ''Thai engineers Japan'',
      ''Japan workforce solutions'',
      ''Thai blue collar workers Japan'',
      ''Japanese construction workers Thailand'',
      ''Thailand Japan employment agency'',
      ''Thai workers Japan visa'',
      ''Japan job opportunities Thailand'',
      ''Thai workers Japan placement'',
      ''Japanese companies Thai workers'',
      ''Thailand Japan workforce deployment'']"

section \<open>utils/seo.ts\<close>

subsection \<open>generateSEOMeta\<close>

record SEOMeta =
  meta_title :: string
  meta_description :: string
  meta_keywords :: "string list"
  meta_image :: string
  meta_canonical :: string
  meta_lang :: Language
  meta_alternates :: "alternate list"

text \<open>
  The optional properties \<open>path\<close>, \<open>keywords\<close> and \<open>image\<close> of the parameter object are
  \<open>None\<close> when left out; the destructuring gives them their defaults.
\<close>

definition generateSEOMeta ::
  "string \<Rightarrow> string \<Rightarrow> Language \<Rightarrow> string option \<Rightarrow> string list option \<Rightarrow> string option
     \<Rightarrow> SEOMeta" where
  "generateSEOMeta title description lang path0 keywords0 image0 =
     (let path = (case path0 of None \<Rightarrow> ''/'' | Some p \<Rightarrow> p);
          keywords = (case keywords0 of None \<Rightarrow> [] | Some ks \<Rightarrow> ks);
          image = (case image0 of None \<Rightarrow> ''/images/og-image.jpg'' | Some i \<Rightarrow> i);
          allKeywords = SEO_KEYWORDS @ keywords;
          fullTitle = title @ '' | '' @ site_name SITE_CONFIG;
          canonical = site_url SITE_CONFIG @ ''/'' @ lang @ path;
          alternates = getAlternateUrls path
      in \<lparr>meta_title = fullTitle,
          meta_description = description,
          meta_keywords = allKeywords,
          meta_image = site_url SITE_CONFIG @ image,
          meta_canonical = canonical,
          meta_lang = lang,
          meta_alternates = alternates\<rparr>)"

subsection \<open>generateBreadcrumbSchema\<close>

record breadcrumb =
  crumb_name :: string
  crumb_url :: string

record list_item =
  li_type :: string
  li_position :: nat
  li_name :: string
  li_item :: string

record breadcrumb_schema =
  schema_context :: string
  schema_type :: string
  itemListElement :: "list_item list"

text \<open>\<open>items.map((item, index) => ...)\<close>: the elements paired with their indices from 0.\<close>

definition generateBreadcrumbSchema :: "breadcrumb list \<Rightarrow> breadcrumb_schema" where
  "generateBreadcrumbSchema items =
     \<lparr>schema_context = ''https://schema.org'',
      schema_type = ''BreadcrumbList'',
      itemListElement =
        map (\<lambda>(index, item).
               \<lparr>li_type = ''ListItem'',
                li_position = index + 1,
                li_name = crumb_name item,
                li_item = site_url SITE_CONFIG @ crumb_url item\<rparr>)
            (enumerate 0 items)\<rparr>"

section \<open>Properties of the path functions\<close>

subsection \<open>removeLanguagePrefix\<close>

lemma loop_no_prefix:
  "\<not> list_ex (\<lambda>lang. startsWith s (lang @ ''/'') \<or> s = lang) langs \<Longrightarrow>
   removeLanguagePrefix_loop langs s = ''/'' @ s"
  by (induction langs) auto

lemma loop_leading_slash: "\<exists>r. removeLanguagePrefix_loop langs s = CHR ''/'' # r"
  by (induction langs) auto

lemma removeLeadingSlash_slash: "removeLeadingSlash (CHR ''/'' # r) = r"
  by (simp add: removeLeadingSlash_def startsWith_def)

lemma no_prefix_result:
  "\<not> hasLanguagePrefix (removeLeadingSlash path) \<Longrightarrow>
   removeLanguagePrefix path = ''/'' @ removeLeadingSlash path"
  by (simp add: removeLanguagePrefix_def hasLanguagePrefix_def loop_no_prefix)

text \<open>
  C3, as stated: \<open>removeLanguagePrefix\<close> is idempotent on every input string.  It is not:
  one call takes off one language segment, so on \<open>/en/ja\<close> the first call gives \<open>/ja\<close> and
  the second gives \<open>/\<close>.
\<close>

theorem removeLanguagePrefix_not_idempotent:
  "removeLanguagePrefix ''/en/ja'' = ''/ja''
   \<and> removeLanguagePrefix (removeLanguagePrefix ''/en/ja'') = ''/''
   \<and> removeLanguagePrefix (removeLanguagePrefix ''/en/ja'') \<noteq> removeLanguagePrefix ''/en/ja''"
  by (simp add: removeLanguagePrefix_def removeLeadingSlash_def startsWith_def LANGUAGES_def)

text \<open>
  C3, amended: whenever the result of \<open>removeLanguagePrefix\<close> does not itself begin with a
  supported-language prefix, applying the function again changes nothing.
\<close>

theorem removeLanguagePrefix_twice:
  assumes "\<not> hasLanguagePrefix (removeLeadingSlash (removeLanguagePrefix p))"
  shows "removeLanguagePrefix (removeLanguagePrefix p) = removeLanguagePrefix p"
proof -
  obtain r where r: "removeLanguagePrefix p = CHR ''/'' # r"
    using loop_leading_slash [of LANGUAGES "removeLeadingSlash p"]
    by (auto simp: removeLanguagePrefix_def)
  from no_prefix_result [OF assms] show ?thesis
    by (simp add: r removeLeadingSlash_slash)
qed

theorem removeLanguagePrefix_twice_witness:
  "\<not> hasLanguagePrefix (removeLeadingSlash (removeLanguagePrefix ''/en/about''))
   \<and> removeLanguagePrefix (removeLanguagePrefix ''/en/about'') = ''/about''"
proof -
  have v: "removeLanguagePrefix ''/en/about'' = ''/about''"
    by (simp add: removeLanguagePrefix_def removeLeadingSlash_def startsWith_def LANGUAGES_def)
  have h: "\<not> hasLanguagePrefix (removeLeadingSlash (removeLanguagePrefix ''/en/about''))"
    by (simp add: v hasLanguagePrefix_def removeLeadingSlash_def startsWith_def LANGUAGES_def)
  from removeLanguagePrefix_twice [OF h] h v show ?thesis
    by simp
qed

text \<open>
  C8, as stated: a path without a supported-language prefix comes back normalised to
  exactly one leading slash.  It does not: only one leading slash is taken off and put
  back, so \<open>//about\<close> comes back as it is, with two.
\<close>

theorem removeLanguagePrefix_keeps_double_slash:
  "\<not> hasLanguagePrefix (removeLeadingSlash ''//about'')
   \<and> removeLanguagePrefix ''//about'' = ''//about''
   \<and> oneLeadingSlash ''//about'' = ''/about''
   \<and> removeLanguagePrefix ''//about'' \<noteq> oneLeadingSlash ''//about''"
  by (simp add: removeLanguagePrefix_def hasLanguagePrefix_def removeLeadingSlash_def
      startsWith_def LANGUAGES_def oneLeadingSlash_def)

text \<open>
  C8, amended: a path that, after one leading slash is removed, does not begin with a
  supported-language prefix comes back with a leading slash ensured: unchanged when it
  begins with a slash, with one slash put in front otherwise.
\<close>

theorem removeLanguagePrefix_no_prefix:
  assumes "\<not> hasLanguagePrefix (removeLeadingSlash path)"
  shows "removeLanguagePrefix path = (if startsWith path ''/'' then path else ''/'' @ path)"
proof (cases path)
  case Nil
  with assms show ?thesis
    by (simp add: no_prefix_result) (simp add: removeLeadingSlash_def startsWith_def)
next
  case (Cons c cs)
  with no_prefix_result [OF assms] show ?thesis
    by (auto simp: removeLeadingSlash_def startsWith_def)
qed

theorem removeLanguagePrefix_no_prefix_witness:
  "\<not> hasLanguagePrefix (removeLeadingSlash ''contact'')
   \<and> removeLanguagePrefix ''contact'' = ''/contact''"
proof -
  have h: "\<not> hasLanguagePrefix (removeLeadingSlash ''contact'')"
    by (simp add: hasLanguagePrefix_def removeLeadingSlash_def startsWith_def LANGUAGES_def)
  from removeLanguagePrefix_no_prefix [OF h] h show ?thesis
    by (simp add: startsWith_def)
qed

subsection \<open>getAlternateUrls\<close>

text \<open>
  C4: for every path, \<open>getAlternateUrls\<close> returns one entry per supported language, in the
  declared order \<open>en\<close>, \<open>ja\<close>, \<open>th\<close>, none filtered out, and the entry of a language has
  the href \<open>"/" + lang + path\<close>.
\<close>

theorem getAlternateUrls_entries:
  "getAlternateUrls p =
     [\<lparr>alt_lang = ''en'', alt_href = ''/en'' @ p\<rparr>,
      \<lparr>alt_lang = ''ja'', alt_href = ''/ja'' @ p\<rparr>,
      \<lparr>alt_lang = ''th'', alt_href = ''/th'' @ p\<rparr>]
   \<and> length (getAlternateUrls p) = length LANGUAGES
   \<and> length (getAlternateUrls p) = 3
   \<and> map alt_lang (getAlternateUrls p) = LANGUAGES
   \<and> map alt_href (getAlternateUrls p) = map (\<lambda>lang. ''/'' @ lang @ p) LANGUAGES"
  by (simp add: getAlternateUrls_def LANGUAGES_def)

section \<open>Properties of the metadata builders\<close>

text \<open>
  C6: the title is the page title, \<open>" | "\<close> and the site name; the canonical URL is the
  site URL, \<open>"/"\<close>, the language and the path; the keywords are the site-wide keywords
  followed by the page's, every occurrence kept.
\<close>

theorem generateSEOMeta_fields:
  "meta_title (generateSEOMeta title description lang (Some path) (Some keywords) img)
     = title @ '' | '' @ site_name SITE_CONFIG
   \<and> meta_canonical (generateSEOMeta title description lang (Some path) (Some keywords) img)
     = site_url SITE_CONFIG @ ''/'' @ lang @ path
   \<and> meta_keywords (generateSEOMeta title description lang (Some path) (Some keywords) img)
     = SEO_KEYWORDS @ keywords
   \<and> count_list
        (meta_keywords (generateSEOMeta title description lang (Some path) (Some keywords) img)) k
     = count_list SEO_KEYWORDS k + count_list keywords k"
  by (simp add: generateSEOMeta_def Let_def)

text \<open>
  C10: for every list of items, the \<open>itemListElement\<close> of \<open>generateBreadcrumbSchema\<close> has
  the length of the input, and its entry at index \<open>i\<close> has position \<open>i + 1\<close>, the name of
  the input's item \<open>i\<close>, and as item the site URL followed by that item's url.
\<close>

theorem generateBreadcrumbSchema_items:
  "length (itemListElement (generateBreadcrumbSchema items)) = length items
   \<and> (\<forall>i < length items.
        itemListElement (generateBreadcrumbSchema items) ! i =
          \<lparr>li_type = ''ListItem'',
           li_position = i + 1,
           li_name = crumb_name (items ! i),
           li_item = site_url SITE_CONFIG @ crumb_url (items ! i)\<rparr>)"
  by (simp add: generateBreadcrumbSchema_def nth_enumerate_eq)

theorem generateBreadcrumbSchema_items_witness:
  "length (itemListElement (generateBreadcrumbSchema [])) = 0
   \<and> (1::nat) < length [\<lparr>crumb_name = ''Home'', crumb_url = ''/''\<rparr>,
                      \<lparr>crumb_name = ''About'', crumb_url = ''/about''\<rparr>]
   \<and> length (itemListElement (generateBreadcrumbSchema
        [\<lparr>crumb_name = ''Home'', crumb_url = ''/''\<rparr>,
         \<lparr>crumb_name = ''About'', crumb_url = ''/about''\<rparr>])) = 2
   \<and> itemListElement (generateBreadcrumbSchema
        [\<lparr>crumb_name = ''Home'', crumb_url = ''/''\<rparr>,
         \<lparr>crumb_name = ''About'', crumb_url = ''/about''\<rparr>]) ! 1 =
      \<lparr>li_type = ''ListItem'', li_position = 2, li_name = ''About'',
       li_item = ''https://www.vincplacement.com/about''\<rparr>"
  using generateBreadcrumbSchema_items [of "[]"]
    generateBreadcrumbSchema_items
      [of "[\<lparr>crumb_name = ''Home'', crumb_url = ''/''\<rparr>,
            \<lparr>crumb_name = ''About'', crumb_url = ''/about''\<rparr>]"]
  by (simp add: SITE_CONFIG_def)

section \<open>Properties of the language detection\<close>

subsection \<open>Strings\<close>

lemma split_on_head: "\<exists>ws. split_on c s = takeWhile (\<lambda>x. x \<noteq> c) s # ws"
  by (induction s) (auto split: list.splits)

lemma startsWith_iff: "startsWith s p = (\<exists>r. s = p @ r)"
  unfolding startsWith_def
  by (metis append_eq_conv_conj append_take_drop_id)

lemma startsWith_append:
  assumes "startsWith s (p @ q)"
  shows "startsWith s p"
  using assms by (auto simp: startsWith_iff)

lemma replace_first_prefix:
  "startsWith s pat \<Longrightarrow> s \<noteq> [] \<Longrightarrow> replace_first pat rep s = rep @ drop (length pat) s"
  by (cases s) auto

text \<open>
  The piece of \<open>r\<close> before its first slash is the code \<open>l\<close> exactly when \<open>r\<close> is \<open>l\<close> or
  starts with \<open>l/\<close>.
\<close>

lemma segment_is_language:
  assumes "CHR ''/'' \<notin> set l"
  shows "(takeWhile (\<lambda>x. x \<noteq> CHR ''/'') r = l) = (r = l \<or> startsWith r (l @ ''/''))"
proof
  assume tw: "takeWhile (\<lambda>x. x \<noteq> CHR ''/'') r = l"
  show "r = l \<or> startsWith r (l @ ''/'')"
  proof (cases "dropWhile (\<lambda>x. x \<noteq> CHR ''/'') r")
    case Nil
    with tw takeWhile_dropWhile_id [of "\<lambda>x. x \<noteq> CHR ''/''" r] show ?thesis by simp
  next
    case (Cons x xs)
    then have "x = CHR ''/''"
      using hd_dropWhile [of "\<lambda>x. x \<noteq> CHR ''/''" r] by auto
    with Cons tw takeWhile_dropWhile_id [of "\<lambda>x. x \<noteq> CHR ''/''" r]
    have "r = (l @ ''/'') @ xs" by simp
    then show ?thesis by (auto simp: startsWith_iff)
  qed
next
  assume "r = l \<or> startsWith r (l @ ''/'')"
  then show "takeWhile (\<lambda>x. x \<noteq> CHR ''/'') r = l"
  proof
    assume "r = l"
    with assms show ?thesis by (auto simp: takeWhile_eq_all_conv)
  next
    assume "startsWith r (l @ ''/'')"
    then obtain xs where "r = l @ CHR ''/'' # xs"
      by (auto simp: startsWith_iff)
    with assms show ?thesis
      by (auto simp: takeWhile_append2 takeWhile_tail)
  qed
qed

subsection \<open>getLangFromUrl\<close>

text \<open>
  Under the \<open>startsWith\<close> test, replacing the first occurrence of the base path removes
  it from the front.
\<close>

lemma pathname_stripBasePath:
  "(if startsWith u ''/vinc-placement-website/''
    then replace_first ''/vinc-placement-website'' '''' u else u) = stripBasePath u"
proof (cases "startsWith u ''/vinc-placement-website/''")
  case True
  then have "startsWith u (''/vinc-placement-website'' @ ''/'')" by simp
  then have p: "startsWith u ''/vinc-placement-website''" by (rule startsWith_append)
  from True have "u \<noteq> []" by (auto simp: startsWith_def)
  with p have "replace_first ''/vinc-placement-website'' '''' u
      = '''' @ drop (length ''/vinc-placement-website'') u"
    by (rule replace_first_prefix)
  with True show ?thesis
    by (simp add: stripBasePath_def)
next
  case False
  then show ?thesis by (simp add: stripBasePath_def)
qed

lemma stripBasePath_slash: "startsWith u ''/'' \<Longrightarrow> startsWith (stripBasePath u) ''/''"
  by (auto simp: stripBasePath_def startsWith_iff)

text \<open>The segment tested is the one between the leading slash and the next slash.\<close>

lemma getLangFromUrl_segment:
  assumes "stripBasePath u = CHR ''/'' # r"
  shows "getLangFromUrl u = supportedOrDefault (takeWhile (\<lambda>x. x \<noteq> CHR ''/'') r)"
proof -
  obtain ws where "split_on CHR ''/'' r = takeWhile (\<lambda>x. x \<noteq> CHR ''/'') r # ws"
    using split_on_head by blast
  with assms show ?thesis
    unfolding getLangFromUrl_def pathname_stripBasePath Let_def
    by (auto simp: supportedOrDefault_def LANGUAGES_def DEFAULT_LANG_def)
qed

text \<open>
  C5, as stated: the first non-empty slash-separated segment is tested, and returned when
  it is a supported language.  It is not the first non-empty segment that is tested but
  the segment at index 1 of the split: on the pathname \<open>//en/about\<close> the first non-empty
  segment is \<open>en\<close>, the segment tested is empty, and the default language comes back.
\<close>

theorem getLangFromUrl_not_first_nonempty:
  "firstNonEmptySegment (stripBasePath ''//en/about'') = Some ''en''
   \<and> ''en'' \<in> set LANGUAGES
   \<and> getLangFromUrl ''//en/about'' = ''ja''
   \<and> getLangFromUrl ''//en/about'' \<noteq> ''en''"
  by (simp add: firstNonEmptySegment_def stripBasePath_def startsWith_def LANGUAGES_def
      getLangFromUrl_def DEFAULT_LANG_def)

text \<open>
  C5, amended: for every pathname that begins with a slash (as the pathname of an http
  URL does), with the deployment base path taken off, \<open>getLangFromUrl\<close> returns the
  supported language \<open>lang\<close> when the path is \<open>/lang\<close> or starts with \<open>/lang/\<close>, and the
  default language for every other path.
\<close>

theorem getLangFromUrl_prefix:
  assumes "startsWith urlPathname ''/''"
  shows "getLangFromUrl urlPathname =
           (case find (pathHasLanguage (stripBasePath urlPathname)) LANGUAGES of
              None \<Rightarrow> DEFAULT_LANG
            | Some lang \<Rightarrow> lang)"
proof -
  from stripBasePath_slash [OF assms]
  obtain r where r: "stripBasePath urlPathname = CHR ''/'' # r"
    by (auto simp: startsWith_iff)
  have "pathHasLanguage (CHR ''/'' # r) l = (takeWhile (\<lambda>x. x \<noteq> CHR ''/'') r = l)"
    if "CHR ''/'' \<notin> set l" for l
    using segment_is_language [OF that, of r]
    by (auto simp: pathHasLanguage_def startsWith_def)
  then show ?thesis
    by (simp add: getLangFromUrl_segment [OF r] r supportedOrDefault_def LANGUAGES_def
        DEFAULT_LANG_def)
qed

theorem getLangFromUrl_prefix_witness:
  "startsWith ''/vinc-placement-website/th/about'' ''/''
   \<and> getLangFromUrl ''/vinc-placement-website/th/about'' = ''th''
   \<and> startsWith ''/contact'' ''/''
   \<and> getLangFromUrl ''/contact'' = DEFAULT_LANG"
  using getLangFromUrl_prefix [of "''/vinc-placement-website/th/about''"]
    getLangFromUrl_prefix [of "''/contact''"]
  by (simp add: startsWith_def stripBasePath_def pathHasLanguage_def LANGUAGES_def)

subsection \<open>detectBrowserLanguage\<close>

text \<open>
  What the function computes in a browser: the subtag before the first hyphen of the first
  preference, or of \<open>en\<close> when the environment advertises none, lower-cased and checked
  against the supported languages.  Entries of \<open>navigator.languages\<close> after the first are
  never read.
\<close>

lemma detectBrowserLanguage_browser:
  "detectBrowserLanguage (Some nav) =
     supportedOrDefault (toLowerCase (takeWhile (\<lambda>c. c \<noteq> CHR ''-'')
       (case firstPreference nav of None \<Rightarrow> ''en'' | Some tag \<Rightarrow> tag)))"
proof -
  define tag where "tag = (case firstPreference nav of None \<Rightarrow> ''en'' | Some tag \<Rightarrow> tag)"
  have b: "str_or (language nav) (str_or (firstOfLanguages nav) (Some ''en'')) = Some tag"
    by (auto simp: tag_def firstPreference_def str_or_def split: option.splits)
  obtain ws where "split_on CHR ''-'' tag = takeWhile (\<lambda>c. c \<noteq> CHR ''-'') tag # ws"
    using split_on_head by blast
  with b show ?thesis
    unfolding tag_def [symmetric]
    by (simp add: detectBrowserLanguage_def Let_def supportedOrDefault_def)
qed

lemma detectBrowserLanguage_no_scan:
  "detectBrowserLanguage (Some (nav\<lparr>languages := Some (x # rest)\<rparr>))
     = detectBrowserLanguage (Some (nav\<lparr>languages := Some [x]\<rparr>))"
  by (simp add: detectBrowserLanguage_def firstOfLanguages_def)

lemma detectBrowserLanguage_no_window: "detectBrowserLanguage None = DEFAULT_LANG"
  by (simp add: detectBrowserLanguage_def)

text \<open>
  C7: \<open>detectBrowserLanguage\<close> returns the lower-cased leading subtag of the first
  advertised preference when it is supported, and the default language otherwise.  The
  code departs from this in a browser that advertises no preference
  (\<open>navigator.language\<close> and \<open>navigator.languages\<close> both missing): the literal \<open>en\<close> stands
  in for the preference, and \<open>en\<close> is returned, not the default language \<open>ja\<close>.
\<close>

theorem detectBrowserLanguage_no_preference:
  "firstPreference \<lparr>language = None, languages = None\<rparr> = None
   \<and> detectBrowserLanguage (Some \<lparr>language = None, languages = None\<rparr>) = ''en''
   \<and> DEFAULT_LANG = ''ja''
   \<and> detectBrowserLanguage (Some \<lparr>language = None, languages = None\<rparr>) \<noteq> DEFAULT_LANG"
  by (simp add: detectBrowserLanguage_def firstPreference_def firstOfLanguages_def str_or_def
      toLowerCase_def lowerChar_def LANGUAGES_def DEFAULT_LANG_def)

section \<open>Properties of the translation lookup\<close>

text \<open>
  For a supported language the first line of \<open>t\<close> finds the language's own tree, whatever
  the runtime: the table holds it as an entry.  \<open>t\<close> is then the loop started on that tree
  with the pieces of the key.
\<close>

lemma langTranslations_tree:
  "lang \<in> set LANGUAGES \<Longrightarrow> langTranslations R L lang = Inr (JData (tree_of L lang))"
  by (auto simp: langTranslations_def translations_table_def tree_of_def LANGUAGES_def)

text \<open>
  For any other tag the table holds no entry; unless the runtime gives the table a truthy
  member of that name, the default language's tree is used.
\<close>

lemma langTranslations_default:
  "lang \<notin> set LANGUAGES \<Longrightarrow> \<not> truthy (R (JData (translations_table L)) lang) \<Longrightarrow>
   langTranslations R L lang = Inr (JData (JObj (ja L)))"
  by (simp add: langTranslations_def translations_table_def LANGUAGES_def DEFAULT_LANG_def)

lemma t_unfold:
  "lang \<in> set LANGUAGES \<Longrightarrow>
   t R L lang key fallback =
     t_loop R (JData (tree_of L lang)) (split_on CHR ''.'' key) fallback key"
  by (simp add: t_def langTranslations_tree)

lemma t_loop_present:
  "tree_at v ks = Some w \<Longrightarrow> t_loop R (JData v) ks fallback key = Inr (JData w)"
proof (induction ks arbitrary: v)
  case Nil
  then show ?case by simp
next
  case (Cons k ks)
  then show ?case
    by (cases v) (auto split: option.splits)
qed

text \<open>After a member that is not walked into, the loop gives the fallback or the key.\<close>

lemma t_loop_past_member:
  "\<not> through_member m ks \<Longrightarrow>
   t_loop R m ks fallback key = Inr (js_or fallback (JData (JStr key)))"
  by (cases ks) (auto simp: through_member_def)

lemma t_loop_absent:
  "tree_at v ks = None \<Longrightarrow> \<not> leaves_at_member R v ks \<Longrightarrow>
   t_loop R (JData v) ks fallback key = Inr (js_or fallback (JData (JStr key)))"
proof (induction ks arbitrary: v)
  case Nil
  then show ?case by simp
next
  case (Cons k ks)
  show ?case
  proof (cases v)
    case (JObj kvs)
    show ?thesis
    proof (cases "map_of kvs k")
      case None
      with Cons.prems JObj show ?thesis by (simp add: t_loop_past_member)
    next
      case (Some w)
      with Cons.prems JObj have "tree_at w ks = None" "\<not> leaves_at_member R w ks"
        by simp_all
      from Cons.IH [OF this] Some JObj show ?thesis by simp
    qed
  next
    case (JArr xs)
    with Cons.prems show ?thesis
      by (simp add: t_loop_past_member del: own_property.simps)
  qed (simp_all)
qed

text \<open>
  The loop is a recursion on the pieces of the key, so \<open>t\<close> always returns; whatever the
  runtime, the language, the key and the fallback, it raises no error and its result is
  not \<open>undefined\<close>.
\<close>

lemma js_or_defined: "js_or fallback (JData (JStr key)) \<noteq> JUndefined"
  by (cases fallback) (auto simp: js_or_def)

lemma js_get_object: "truthy v \<Longrightarrow> \<exists>r. js_get R v k = Inr r"
  by (cases "(R, v, k)" rule: js_get.cases) auto

lemma t_loop_defined: "\<exists>w. t_loop R v ks fallback key = Inr w \<and> w \<noteq> JUndefined"
proof (induction ks arbitrary: v)
  case Nil
  then show ?case by (simp add: js_or_defined)
next
  case (Cons k ks)
  show ?case
  proof (cases "truthy v \<and> typeof v = ''object''")
    case True
    then obtain r where "js_get R v k = Inr r"
      using js_get_object by blast
    with True Cons.IH [of r] show ?thesis by simp
  next
    case False
    then show ?thesis by (auto simp: js_or_defined)
  qed
qed

lemma t_defined: "\<exists>w. t R L lang key fallback = Inr w \<and> w \<noteq> JUndefined"
proof -
  have "\<exists>a. langTranslations R L lang = Inr a"
    by (auto simp: langTranslations_def translations_table_def split: option.splits)
  then show ?thesis
    by (auto simp: t_def t_loop_defined)
qed

text \<open>
  C1: for every supported language and every key whose dot-delimited path is present in
  the language's translation tree, \<open>t\<close> returns the value stored at that path (a string, a
  sequence or a sub-tree), unchanged, whatever the fallback and the runtime.
\<close>

theorem t_present:
  assumes "lang \<in> set LANGUAGES"
      and "tree_at (tree_of L lang) (split_on CHR ''.'' key) = Some v"
  shows "t R L lang key fallback = Inr (JData v)"
  using assms by (simp add: t_unfold t_loop_present)

theorem t_present_witness:
  "''en'' \<in> set LANGUAGES
   \<and> tree_at (tree_of
       \<lparr>en = [(''nav'', JObj [(''home'', JStr ''Home''),
        (''items'', JArr [JStr ''a'', JStr ''b''])])], ja = [], th = []\<rparr>
       ''en'') (split_on CHR ''.'' ''nav.home'') = Some (JStr ''Home'')
   \<and> t ecmascript
       \<lparr>en = [(''nav'', JObj [(''home'', JStr ''Home''),
        (''items'', JArr [JStr ''a'', JStr ''b''])])], ja = [], th = []\<rparr>
       ''en'' ''nav.home'' JUndefined = Inr (JData (JStr ''Home''))"
proof -
  have h1: "''en'' \<in> set LANGUAGES"
    by (simp add: LANGUAGES_def)
  have h2: "tree_at (tree_of
       \<lparr>en = [(''nav'', JObj [(''home'', JStr ''Home''),
        (''items'', JArr [JStr ''a'', JStr ''b''])])], ja = [], th = []\<rparr>
       ''en'') (split_on CHR ''.'' ''nav.home'') = Some (JStr ''Home'')"
    by (simp add: tree_of_def)
  from t_present [OF h1 h2, of ecmascript JUndefined] h1 h2 show ?thesis
    by simp
qed

text \<open>
  C2, as stated: for a key whose path is absent from the tree, \<open>t\<close> returns the key when
  no fallback is given and the fallback whenever one is given.  It does not, in these
  ways, each shown on the tree \<open>{nav: {home: "Home", items: ["a", "b"]}}\<close>:
  with the empty string as fallback the key \<open>nav.about\<close> comes back, not the fallback;
  for \<open>nav.toString\<close> the function every object inherits comes back, with a fallback and
  without one; for \<open>nav.items.0\<close> the element of the sequence comes back; for
  \<open>nav.__proto__.valueOf\<close> the path goes on into the prototype and its function comes
  back.
\<close>

theorem t_fallback_or_key_fails:
  "tree_at (tree_of
       \<lparr>en = [(''nav'', JObj [(''home'', JStr ''Home''),
        (''items'', JArr [JStr ''a'', JStr ''b''])])], ja = [], th = []\<rparr>
       ''en'') (split_on CHR ''.'' ''nav.about'') = None
   \<and> t ecmascript
       \<lparr>en = [(''nav'', JObj [(''home'', JStr ''Home''),
        (''items'', JArr [JStr ''a'', JStr ''b''])])], ja = [], th = []\<rparr>
       ''en'' ''nav.about'' (JData (JStr '''')) = Inr (JData (JStr ''nav.about''))
   \<and> tree_at (tree_of
       \<lparr>en = [(''nav'', JObj [(''home'', JStr ''Home''),
        (''items'', JArr [JStr ''a'', JStr ''b''])])], ja = [], th = []\<rparr>
       ''en'') (split_on CHR ''.'' ''nav.toString'') = None
   \<and> t ecmascript
       \<lparr>en = [(''nav'', JObj [(''home'', JStr ''Home''),
        (''items'', JArr [JStr ''a'', JStr ''b''])])], ja = [], th = []\<rparr>
       ''en'' ''nav.toString'' (JData (JStr ''Fallback''))
       = Inr (JFunction ''Object.prototype.toString'')
   \<and> t ecmascript
       \<lparr>en = [(''nav'', JObj [(''home'', JStr ''Home''),
        (''items'', JArr [JStr ''a'', JStr ''b''])])], ja = [], th = []\<rparr>
       ''en'' ''nav.toString'' JUndefined
       = Inr (JFunction ''Object.prototype.toString'')
   \<and> tree_at (tree_of
       \<lparr>en = [(''nav'', JObj [(''home'', JStr ''Home''),
        (''items'', JArr [JStr ''a'', JStr ''b''])])], ja = [], th = []\<rparr>
       ''en'') (split_on CHR ''.'' ''nav.items.0'') = None
   \<and> t ecmascript
       \<lparr>en = [(''nav'', JObj [(''home'', JStr ''Home''),
        (''items'', JArr [JStr ''a'', JStr ''b''])])], ja = [], th = []\<rparr>
       ''en'' ''nav.items.0'' JUndefined = Inr (JData (JStr ''a''))
   \<and> tree_at (tree_of
       \<lparr>en = [(''nav'', JObj [(''home'', JStr ''Home''),
        (''items'', JArr [JStr ''a'', JStr ''b''])])], ja = [], th = []\<rparr>
       ''en'') (split_on CHR ''.'' ''nav.__proto__.valueOf'') = None
   \<and> t ecmascript
       \<lparr>en = [(''nav'', JObj [(''home'', JStr ''Home''),
        (''items'', JArr [JStr ''a'', JStr ''b''])])], ja = [], th = []\<rparr>
       ''en'' ''nav.__proto__.valueOf'' JUndefined
       = Inr (JFunction ''Object.prototype.valueOf'')"
  by (simp add: t_def langTranslations_def translations_table_def tree_of_def js_or_def
      object_prototype_member_def object_prototype_names_def index_key.simps upt_rec)

text \<open>
  C2, amended: for every supported language and every key whose path is absent from the
  language's translation tree and does not leave the tree through a member of the runtime
  (at the segment where the path leaves the tree, the value there has no such member, as
  an inherited one or as an index or the \<open>length\<close> of a sequence; or it has one that is not
  an object and more segments follow), \<open>t\<close> returns the fallback when one is given and
  truthy, and the key unchanged otherwise (no fallback, or a falsy one such as the empty
  string).  This holds for every runtime.
\<close>

theorem t_absent:
  assumes "lang \<in> set LANGUAGES"
      and "tree_at (tree_of L lang) (split_on CHR ''.'' key) = None"
      and "\<not> leaves_at_member R (tree_of L lang) (split_on CHR ''.'' key)"
  shows "t R L lang key fallback
           = Inr (if truthy fallback then fallback else JData (JStr key))"
  using assms by (simp add: t_unfold t_loop_absent js_or_def)

theorem t_absent_witness:
  "''en'' \<in> set LANGUAGES
   \<and> tree_at (tree_of
       \<lparr>en = [(''nav'', JObj [(''home'', JStr ''Home''),
        (''items'', JArr [JStr ''a'', JStr ''b''])])], ja = [], th = []\<rparr>
       ''en'') (split_on CHR ''.'' ''nav.about'') = None
   \<and> \<not> leaves_at_member ecmascript (tree_of
       \<lparr>en = [(''nav'', JObj [(''home'', JStr ''Home''),
        (''items'', JArr [JStr ''a'', JStr ''b''])])], ja = [], th = []\<rparr>
       ''en'') (split_on CHR ''.'' ''nav.about'')
   \<and> t ecmascript
       \<lparr>en = [(''nav'', JObj [(''home'', JStr ''Home''),
        (''items'', JArr [JStr ''a'', JStr ''b''])])], ja = [], th = []\<rparr>
       ''en'' ''nav.about'' (JData (JStr ''About'')) = Inr (JData (JStr ''About''))
   \<and> t ecmascript
       \<lparr>en = [(''nav'', JObj [(''home'', JStr ''Home''),
        (''items'', JArr [JStr ''a'', JStr ''b''])])], ja = [], th = []\<rparr>
       ''en'' ''nav.about'' (JData (JStr '''')) = Inr (JData (JStr ''nav.about''))
   \<and> t ecmascript
       \<lparr>en = [(''nav'', JObj [(''home'', JStr ''Home''),
        (''items'', JArr [JStr ''a'', JStr ''b''])])], ja = [], th = []\<rparr>
       ''en'' ''nav.about'' JUndefined = Inr (JData (JStr ''nav.about''))
   \<and> tree_at (tree_of
       \<lparr>en = [(''nav'', JObj [(''home'', JStr ''Home''),
        (''items'', JArr [JStr ''a'', JStr ''b''])])], ja = [], th = []\<rparr>
       ''en'') (split_on CHR ''.'' ''nav.items.first'') = None
   \<and> \<not> leaves_at_member ecmascript (tree_of
       \<lparr>en = [(''nav'', JObj [(''home'', JStr ''Home''),
        (''items'', JArr [JStr ''a'', JStr ''b''])])], ja = [], th = []\<rparr>
       ''en'') (split_on CHR ''.'' ''nav.items.first'')
   \<and> t ecmascript
       \<lparr>en = [(''nav'', JObj [(''home'', JStr ''Home''),
        (''items'', JArr [JStr ''a'', JStr ''b''])])], ja = [], th = []\<rparr>
       ''en'' ''nav.items.first'' JUndefined = Inr (JData (JStr ''nav.items.first''))"
proof -
  have h1: "''en'' \<in> set LANGUAGES"
    by (simp add: LANGUAGES_def)
  have h2: "tree_at (tree_of
       \<lparr>en = [(''nav'', JObj [(''home'', JStr ''Home''),
        (''items'', JArr [JStr ''a'', JStr ''b''])])], ja = [], th = []\<rparr>
       ''en'') (split_on CHR ''.'' ''nav.about'') = None"
    by (simp add: tree_of_def)
  have h3: "\<not> leaves_at_member ecmascript (tree_of
       \<lparr>en = [(''nav'', JObj [(''home'', JStr ''Home''),
        (''items'', JArr [JStr ''a'', JStr ''b''])])], ja = [], th = []\<rparr>
       ''en'') (split_on CHR ''.'' ''nav.about'')"
    by (simp add: tree_of_def through_member_def object_prototype_member_def
        object_prototype_names_def)
  have k2: "tree_at (tree_of
       \<lparr>en = [(''nav'', JObj [(''home'', JStr ''Home''),
        (''items'', JArr [JStr ''a'', JStr ''b''])])], ja = [], th = []\<rparr>
       ''en'') (split_on CHR ''.'' ''nav.items.first'') = None"
    by (simp add: tree_of_def)
  have k3: "\<not> leaves_at_member ecmascript (tree_of
       \<lparr>en = [(''nav'', JObj [(''home'', JStr ''Home''),
        (''items'', JArr [JStr ''a'', JStr ''b''])])], ja = [], th = []\<rparr>
       ''en'')
      (split_on CHR ''.'' ''nav.items.first'')"
    by (simp add: tree_of_def through_member_def object_prototype_member_def
        object_prototype_names_def array_prototype_member_def array_prototype_names_def
        index_key.simps upt_rec)
  from t_absent [OF h1 h2 h3, of "JData (JStr ''About'')"]
    t_absent [OF h1 h2 h3, of "JData (JStr '''')"]
    t_absent [OF h1 h2 h3, of JUndefined]
    t_absent [OF h1 k2 k3, of JUndefined] h1 h2 h3 k2 k3
  show ?thesis
    by simp
qed

text \<open>
  C9: the result of \<open>t\<close> is always a stored translation, the fallback or the key itself.
  The code departs from this: it reads \<open>result[k]\<close> without asking whether \<open>k\<close> is an entry
  of the tree.  On the tree \<open>{nav: {home: "Home", items: ["a", "b"]}}\<close> the key
  \<open>constructor\<close>, which the tree does not hold, gives the function \<open>Object\<close>, and the key
  \<open>nav.items.length\<close> gives the number 2; neither is stored in the tree, nor the fallback,
  nor the key.
\<close>

theorem t_returns_inherited_member:
  "tree_at (tree_of
       \<lparr>en = [(''nav'', JObj [(''home'', JStr ''Home''),
        (''items'', JArr [JStr ''a'', JStr ''b''])])], ja = [], th = []\<rparr>
       ''en'') (split_on CHR ''.'' ''constructor'') = None
   \<and> t ecmascript
       \<lparr>en = [(''nav'', JObj [(''home'', JStr ''Home''),
        (''items'', JArr [JStr ''a'', JStr ''b''])])], ja = [], th = []\<rparr>
       ''en'' ''constructor'' JUndefined = Inr (JFunction ''Object'')
   \<and> tree_at (tree_of
       \<lparr>en = [(''nav'', JObj [(''home'', JStr ''Home''),
        (''items'', JArr [JStr ''a'', JStr ''b''])])], ja = [], th = []\<rparr>
       ''en'') (split_on CHR ''.'' ''nav.items.length'') = None
   \<and> t ecmascript
       \<lparr>en = [(''nav'', JObj [(''home'', JStr ''Home''),
        (''items'', JArr [JStr ''a'', JStr ''b''])])], ja = [], th = []\<rparr>
       ''en'' ''nav.items.length'' JUndefined = Inr (JData (JNum 2))"
  by (simp add: t_def langTranslations_def translations_table_def tree_of_def js_or_def
      object_prototype_member_def object_prototype_names_def)

end
